theory Spec2Isabelle
  imports Main "HOL-Library.Word"
begin

section \<open>JavaScript values\<close>

text \<open>
  The values that travel through the middleware: a token is a string, a missing property
  reads as \<open>undefined\<close>, the storage read falls back to \<open>null\<close>. An object or a
  function is \<open>JObject\<close> with a label that stands for its identity, so \<open>===\<close> is
  equality of the datatype; \<open>NaN\<close> is left out. \<open>truthy\<close> is the conversion to
  boolean that \<open>!\<close>, \<open>||\<close> and \<open>if\<close> apply.
\<close>

datatype jsval = JUndefined | JNull | JBool bool | JNum int | JStr string | JObject string

fun truthy :: "jsval \<Rightarrow> bool" where
  "truthy JUndefined = False"
| "truthy JNull = False"
| "truthy (JBool b) = b"
| "truthy (JNum n) = (n \<noteq> 0)"
| "truthy (JStr s) = (s \<noteq> [])"
| "truthy (JObject l) = True"

definition js_or :: "jsval \<Rightarrow> jsval \<Rightarrow> jsval" where
  \<comment> \<open>\<open>a || b\<close> on values that are already computed\<close>
  "js_or a b = (if truthy a then a else b)"

text \<open>
  The objects of a request (\<open>req.session\<close>, \<open>req.cookies\<close>, \<open>req.body\<close>,
  \<open>req.headers\<close>) are plain objects, as in the unit tests: a map holds the own
  properties, and a name that is not an own property is read from \<open>Object.prototype\<close>.
  Its members are functions, and \<open>__proto__\<close> reads as the prototype itself: each is the
  object labelled with its name.
\<close>

type_synonym obj = "string \<rightharpoonup> jsval"

definition object_prototype :: "string list" where
  "object_prototype =
     [''constructor'', ''__defineGetter__'', ''__defineSetter__'', ''hasOwnProperty'',
      ''__lookupGetter__'', ''__lookupSetter__'', ''isPrototypeOf'', ''propertyIsEnumerable'',
      ''toString'', ''valueOf'', ''__proto__'', ''toLocaleString'']"

definition inherited :: "string \<Rightarrow> jsval" where
  "inherited k = (if k \<in> set object_prototype then JObject k else JUndefined)"

definition get_prop :: "obj \<Rightarrow> string \<Rightarrow> jsval" where
  \<comment> \<open>\<open>ob[k]\<close>: the own property, or what the prototype gives\<close>
  "get_prop ob k = (case ob k of None \<Rightarrow> inherited k | Some v \<Rightarrow> v)"

text \<open>
  \<open>ob[k] = v\<close> for a string \<open>v\<close>: an own property is overwritten, an inherited
  function is shadowed by a new own property, and the inherited setter of \<open>__proto__\<close>
  ignores a string. \<open>delete ob[k]\<close> removes the own property and is \<open>ob(k := None)\<close>.
\<close>

definition set_prop :: "obj \<Rightarrow> string \<Rightarrow> jsval \<Rightarrow> obj" where
  "set_prop ob k v = (if ob k = None \<and> k = ''__proto__'' then ob else ob(k \<mapsto> v))"

datatype error =
    TypeError
  | RangeError
  | StringTooLong
  | SessionRequired
  | CookieParserRequired
  | HookError string

section \<open>Request, response and the trace of a middleware call\<close>

text \<open>
  \<open>req.body\<close>, \<open>req.headers\<close>, \<open>req.session\<close> and \<open>req.cookies\<close> are present
  only when the host framework or an upstream middleware has set them; reading a
  property of a missing one throws a \<open>TypeError\<close>, so each is an option.
\<close>

record request =
  req_method :: string
  body :: "obj option"
  headers :: "obj option"
  session :: "obj option"
  cookies :: "obj option"
  currentCsrfToken :: jsval

type_synonym cookie_options = "(string \<times> jsval) list"

datatype cookie_op =
    SetCookie string string "cookie_options option"
  | ClearCookie string

text \<open>
  The response records what the middleware asked of it: \<open>res.status\<close>, \<open>res.send\<close>,
  the calls of \<open>res.cookie\<close> and \<open>res.clearCookie\<close> in order, and \<open>res.locals\<close>.
\<close>

record response =
  statusCode :: nat
  sent :: "string option"
  cookie_ops :: "cookie_op list"
  locals :: obj

text \<open>
  What a call does besides changing \<open>req\<close> and \<open>res\<close>, in the order of the source:
  a call of \<open>csrf.getToken\<close>, a write of a minted token, a call of
  \<open>csrf.clearToken\<close>, a call of \<open>csrf.errorResponse\<close>, \<open>next()\<close> and
  \<open>next(error)\<close>.
\<close>

datatype event =
    ReadToken
  | WriteToken string
  | ClearToken
  | Reject
  | CallNext
  | CallNextErr error

type_synonym result = "request \<times> response \<times> event list"

section \<open>The shared configuration object\<close>

definition SESSION :: string where
  "SESSION = ''session''"

definition COOKIE :: string where
  "COOKIE = ''cookie''"

record Storage =
  storage_type :: string
  storage_options :: "cookie_options option"

text \<open>
  The module variable \<open>csrf\<close>. Its field \<open>value\<close> is \<open>value_name\<close> here. The three
  hooks are functions a caller may replace. A hook reads the request and does not change
  it; it may throw (\<open>Inl\<close>). \<open>protectCondition\<close> returns the truth value of what the
  hook returns; \<open>errorResponse\<close> returns the response it produced and whether it called
  \<open>next()\<close>. \<open>getToken\<close> and \<open>clearToken\<close> are not part of \<open>CsrfConfig\<close>; they
  are the functions below, reading the shared object they are given. The calls of
  \<open>console\<close> are left out.
\<close>

record Csrf =
  param :: string
  value_name :: string
  storage :: Storage
  tokenLength :: int
  protectCondition :: "request \<Rightarrow> error + bool"
  getTransmitToken :: "request \<Rightarrow> error + jsval"
  errorResponse :: "request \<Rightarrow> response \<Rightarrow> error + response \<times> bool"

definition getToken :: "Csrf \<Rightarrow> request \<Rightarrow> error + jsval" where
  "getToken g req =
     (if storage_type (storage g) = SESSION then
        (case session req of
           None \<Rightarrow> Inl TypeError
         | Some s \<Rightarrow> Inr (js_or (get_prop s (param g)) JNull))
      else if storage_type (storage g) = COOKIE then
        (case cookies req of
           None \<Rightarrow> Inl TypeError
         | Some c \<Rightarrow> Inr (js_or (get_prop c (param g)) JNull))
      else Inr JNull)"

definition clearToken :: "Csrf \<Rightarrow> request \<Rightarrow> response \<Rightarrow> error + request \<times> response" where
  "clearToken g req res =
     (if storage_type (storage g) = SESSION then
        (case session req of
           None \<Rightarrow> Inl TypeError
         | Some s \<Rightarrow> Inr (req\<lparr>session := Some (s(param g := None))\<rparr>, res))
      else if storage_type (storage g) = COOKIE then
        Inr (req, res\<lparr>cookie_ops := cookie_ops res @ [ClearCookie (param g)]\<rparr>)
      else Inr (req, res))"

definition protectCondition_default :: "request \<Rightarrow> error + bool" where
  "protectCondition_default req =
     Inr (req_method req = ''POST'' \<or> req_method req = ''PUT'' \<or> req_method req = ''DELETE'')"

definition getTransmitToken_default :: "request \<Rightarrow> error + jsval" where
  "getTransmitToken_default req =
     (case body req of
        None \<Rightarrow> Inl TypeError
      | Some b \<Rightarrow>
          if truthy (get_prop b ''_csrf'') then Inr (get_prop b ''_csrf'')
          else (case headers req of
                  None \<Rightarrow> Inl TypeError
                | Some h \<Rightarrow> Inr (get_prop h ''csrf-token'')))"

definition errorResponse_default :: "request \<Rightarrow> response \<Rightarrow> error + response \<times> bool" where
  "errorResponse_default req res =
     Inr (res\<lparr>statusCode := 403, sent := Some ''CSRF token invalid''\<rparr>, False)"

definition csrf :: Csrf where
  "csrf =
     \<lparr>param = ''_csrf'',
      value_name = ''csrfToken'',
      storage = \<lparr>storage_type = SESSION, storage_options = Some []\<rparr>,
      tokenLength = 16,
      protectCondition = protectCondition_default,
      getTransmitToken = getTransmitToken_default,
      errorResponse = errorResponse_default\<rparr>"

section \<open>protect\<close>

text \<open>
  \<open>rejected\<close> is the statement \<open>return csrf.errorResponse(req, res, next)\<close> inside the
  \<open>try\<close>: \<open>tr\<close> is the trace so far; a hook that throws lands in the \<open>catch\<close>.
\<close>

definition rejected :: "Csrf \<Rightarrow> request \<Rightarrow> response \<Rightarrow> event list \<Rightarrow> result" where
  "rejected g req res tr =
     (case errorResponse g req res of
        Inl e \<Rightarrow> (req, res, tr @ [Reject, CallNextErr e])
      | Inr (res', called) \<Rightarrow> (req, res', tr @ Reject # (if called then [CallNext] else [])))"

text \<open>
  \<open>!token || token !== csrf.getToken(req)\<close> reads the storage only when the submitted
  token is truthy, hence the two rejecting branches.
\<close>

definition protect :: "Csrf \<Rightarrow> request \<Rightarrow> response \<Rightarrow> result" where
  "protect g req res =
     (case protectCondition g req of
        Inl e \<Rightarrow> (req, res, [CallNextErr e])
      | Inr False \<Rightarrow> (req, res, [CallNext])
      | Inr True \<Rightarrow>
          (case getTransmitToken g req of
             Inl e \<Rightarrow> (req, res, [CallNextErr e])
           | Inr token \<Rightarrow>
               if truthy token then
                 (case getToken g req of
                    Inl e \<Rightarrow> (req, res, [ReadToken, CallNextErr e])
                  | Inr canonical \<Rightarrow>
                      if token = canonical then
                        (case clearToken g req res of
                           Inl e \<Rightarrow> (req, res, [ReadToken, ClearToken, CallNextErr e])
                         | Inr (req', res') \<Rightarrow> (req', res', [ReadToken, ClearToken, CallNext]))
                      else rejected g req res [ReadToken])
               else rejected g req res []))"

section \<open>setTokenLocalsParam\<close>

text \<open>
  No \<open>try\<close> here: an exception of \<open>getToken\<close> leaves the function (\<open>Inl\<close>).
\<close>

definition setTokenLocalsParam :: "Csrf \<Rightarrow> request \<Rightarrow> response \<Rightarrow> error + result" where
  "setTokenLocalsParam g req res =
     (case getToken g req of
        Inl e \<Rightarrow> Inl e
      | Inr t \<Rightarrow>
          Inr (req,
               res\<lparr>locals := (locals res)(value_name g \<mapsto> js_or t (currentCsrfToken req))\<rparr>,
               [ReadToken, CallNext]))"

section \<open>generate\<close>

text \<open>
  \<open>CsrfConfig\<close>: every property is optional; \<open>None\<close> is a property the caller's
  object does not have.
\<close>

record CsrfConfig =
  cfg_tokenLength :: "int option"
  cfg_storage :: "Storage option"
  cfg_param :: "string option"
  cfg_value :: "string option"
  cfg_errorResponse :: "(request \<Rightarrow> response \<Rightarrow> error + response \<times> bool) option"
  cfg_protectCondition :: "(request \<Rightarrow> error + bool) option"
  cfg_getTransmitToken :: "(request \<Rightarrow> error + jsval) option"

definition default_csrfConfig :: "Csrf \<Rightarrow> CsrfConfig" where
  \<comment> \<open>the default value of the parameter, evaluated at the call against the current \<open>csrf\<close>\<close>
  "default_csrfConfig g =
     \<lparr>cfg_tokenLength = Some 16,
      cfg_storage = Some \<lparr>storage_type = SESSION, storage_options = Some []\<rparr>,
      cfg_param = Some ''_csrf'',
      cfg_value = Some ''csrfToken'',
      cfg_errorResponse = Some (errorResponse g),
      cfg_protectCondition = Some (protectCondition g),
      cfg_getTransmitToken = Some (getTransmitToken g)\<rparr>"

definition spread :: "Csrf \<Rightarrow> CsrfConfig \<Rightarrow> Csrf" where
  \<comment> \<open>\<open>{ ...csrf, ...csrfConfig }\<close>: a property of \<open>csrfConfig\<close> replaces the one of \<open>csrf\<close> whole\<close>
  "spread g c =
     \<lparr>param = (case cfg_param c of None \<Rightarrow> param g | Some p \<Rightarrow> p),
      value_name = (case cfg_value c of None \<Rightarrow> value_name g | Some v \<Rightarrow> v),
      storage = (case cfg_storage c of None \<Rightarrow> storage g | Some s \<Rightarrow> s),
      tokenLength = (case cfg_tokenLength c of None \<Rightarrow> tokenLength g | Some n \<Rightarrow> n),
      protectCondition =
        (case cfg_protectCondition c of None \<Rightarrow> protectCondition g | Some f \<Rightarrow> f),
      getTransmitToken =
        (case cfg_getTransmitToken c of None \<Rightarrow> getTransmitToken g | Some f \<Rightarrow> f),
      errorResponse = (case cfg_errorResponse c of None \<Rightarrow> errorResponse g | Some f \<Rightarrow> f)\<rparr>"

text \<open>
  \<open>generate\<close> assigns the module variable and returns a closure over its argument:
  the new value of \<open>csrf\<close>, and the \<open>csrfConfig\<close> the returned middleware holds.
\<close>

definition generate :: "CsrfConfig option \<Rightarrow> Csrf \<Rightarrow> Csrf \<times> CsrfConfig" where
  "generate arg g =
     (let csrfConfig = (case arg of None \<Rightarrow> default_csrfConfig g | Some c \<Rightarrow> c)
      in (spread g csrfConfig, csrfConfig))"

text \<open>
  \<open>crypto.randomBytes(size).toString('hex')\<close>. The module \<open>crypto\<close> belongs to the
  platform; its contract is taken as documented: a size below 0 or above \<open>2^31 - 1\<close>
  is a range error, size 0 is the empty buffer. \<open>ent\<close> is the entropy the call draws,
  byte by byte; each byte prints as two lower-case hexadecimal digits, and a string of
  more than \<open>0x1fffffe8\<close> characters is refused with an error.
\<close>

definition randomBytes :: "(nat \<Rightarrow> 8 word) \<Rightarrow> int \<Rightarrow> error + 8 word list" where
  "randomBytes ent n =
     (if n < 0 \<or> 2147483647 < n then Inl RangeError
      else Inr (map ent [0..<nat n]))"

definition hex_digit :: "nat \<Rightarrow> char" where
  "hex_digit n = ''0123456789abcdef'' ! n"

definition hex_byte :: "8 word \<Rightarrow> string" where
  "hex_byte b = [hex_digit (unat b div 16), hex_digit (unat b mod 16)]"

definition toString_hex :: "8 word list \<Rightarrow> error + string" where
  "toString_hex bs =
     (if 536870888 < 2 * length bs then Inl StringTooLong
      else Inr (concat (map hex_byte bs)))"

text \<open>
  The \<open>try\<close> block of the returned middleware. It reads the module variable \<open>csrf\<close>
  (here \<open>g\<close>, its value when the request arrives), not the closure's \<open>csrfConfig\<close>.
\<close>

definition issue_try :: "Csrf \<Rightarrow> (nat \<Rightarrow> 8 word) \<Rightarrow> request \<Rightarrow> response \<Rightarrow> result" where
  "issue_try g ent req res =
     (case getToken g req of
        Inl e \<Rightarrow> (req, res, [ReadToken, CallNextErr e])
      | Inr t \<Rightarrow>
          if truthy t then (req, res, [ReadToken, CallNext])
          else
            (case randomBytes ent (tokenLength g) of
               Inl e \<Rightarrow> (req, res, [ReadToken, CallNextErr e])
             | Inr bytes \<Rightarrow>
                 (case toString_hex bytes of
                    Inl e \<Rightarrow> (req, res, [ReadToken, CallNextErr e])
                  | Inr token \<Rightarrow>
                      if storage_type (storage g) = SESSION then
                        (case session req of
                           None \<Rightarrow> (req, res, [ReadToken, CallNextErr TypeError])
                         | Some s \<Rightarrow>
                             (req\<lparr>session := Some (set_prop s (param g) (JStr token)),
                                  currentCsrfToken := JStr token\<rparr>,
                              res,
                              [ReadToken, WriteToken token, CallNext]))
                      else if storage_type (storage g) = COOKIE then
                        (req\<lparr>currentCsrfToken := JStr token\<rparr>,
                         res\<lparr>cookie_ops := cookie_ops res @
                                [SetCookie (param g) token (storage_options (storage g))]\<rparr>,
                         [ReadToken, WriteToken token, CallNext])
                      else
                        (req\<lparr>currentCsrfToken := JStr token\<rparr>, res, [ReadToken, CallNext]))))"

text \<open>
  The middleware \<open>generate\<close> returns. The two checks before the \<open>try\<close> read the
  closure's \<open>csrfConfig\<close>, and what they throw leaves the function (\<open>Inl\<close>);
  \<open>csrfConfig.storage.type\<close> throws when the caller's object has no \<open>storage\<close>.
\<close>

definition middleware ::
  "CsrfConfig \<Rightarrow> Csrf \<Rightarrow> (nat \<Rightarrow> 8 word) \<Rightarrow> request \<Rightarrow> response \<Rightarrow> error + result" where
  "middleware csrfConfig g ent req res =
     (case cfg_storage csrfConfig of
        None \<Rightarrow> Inl TypeError
      | Some st \<Rightarrow>
          if storage_type st = SESSION \<and> session req = None then Inl SessionRequired
          else if storage_type st = COOKIE \<and> cookies req = None then Inl CookieParserRequired
          else Inr (issue_try g ent req res))"

section \<open>Fixtures\<close>

text \<open>
  The request and response the unit tests start from (\<open>beforeEach\<close>): an empty session,
  no cookies, method \<open>POST\<close>, an empty body; with the empty header object of a real
  request, and the status a response starts with.
\<close>

definition test_req :: request where
  "test_req =
     \<lparr>req_method = ''POST'', body = Some Map.empty, headers = Some Map.empty,
      session = Some Map.empty, cookies = Some Map.empty, currentCsrfToken = JUndefined\<rparr>"

definition test_res :: response where
  "test_res = \<lparr>statusCode = 200, sent = None, cookie_ops = [], locals = Map.empty\<rparr>"

text \<open>The unit test of a valid token: the same value in the body and in the session.\<close>

definition valid_req :: request where
  "valid_req =
     test_req\<lparr>body := Some [''_csrf'' \<mapsto> JStr ''validToken''],
              session := Some [''_csrf'' \<mapsto> JStr ''validToken'']\<rparr>"

text \<open>
  The configuration of the end-to-end test (cookie storage, 24 bytes), the module variable
  after that call of \<open>generate\<close>, and the valid request of that test: the token as the
  cookie and as the body field.
\<close>

definition e2e_config :: CsrfConfig where
  "e2e_config =
     \<lparr>cfg_tokenLength = Some 24,
      cfg_storage =
        Some \<lparr>storage_type = COOKIE,
              storage_options =
                Some [(''httpOnly'', JBool True), (''maxAge'', JNum 86400000),
                      (''secure'', JBool True)]\<rparr>,
      cfg_param = None,
      cfg_value = None,
      cfg_errorResponse = None,
      cfg_protectCondition = None,
      cfg_getTransmitToken = None\<rparr>"

definition e2e_csrf :: Csrf where
  "e2e_csrf = fst (generate (Some e2e_config) csrf)"

definition e2e_req :: request where
  "e2e_req =
     test_req\<lparr>body := Some [''_csrf'' \<mapsto> JStr ''ab''],
              cookies := Some [''_csrf'' \<mapsto> JStr ''ab'']\<rparr>"

text \<open>
  The request and response after a first run of the \<open>try\<close> block on the fixture, with
  session storage and with the cookie storage of the end-to-end test; the random source
  returns the byte \<open>0x0a\<close>.
\<close>

definition session_issued :: result where
  "session_issued = issue_try csrf (\<lambda>_. 10) test_req test_res"

definition cookie_issued :: result where
  "cookie_issued = issue_try e2e_csrf (\<lambda>_. 10) test_req test_res"

text \<open>A configuration with token length 0, and one that renames the parameter.\<close>

definition zero_config :: CsrfConfig where
  "zero_config =
     \<lparr>cfg_tokenLength = Some 0,
      cfg_storage = Some \<lparr>storage_type = SESSION, storage_options = Some []\<rparr>,
      cfg_param = None, cfg_value = None, cfg_errorResponse = None,
      cfg_protectCondition = None, cfg_getTransmitToken = None\<rparr>"

definition param_config :: CsrfConfig where
  "param_config =
     \<lparr>cfg_tokenLength = None,
      cfg_storage = Some \<lparr>storage_type = SESSION, storage_options = Some []\<rparr>,
      cfg_param = Some ''token'', cfg_value = None, cfg_errorResponse = None,
      cfg_protectCondition = None, cfg_getTransmitToken = None\<rparr>"

text \<open>
  The parameter renamed to \<open>constructor\<close>, a name every plain object inherits, and a
  valid request under that name.
\<close>

definition ctor_csrf :: Csrf where
  "ctor_csrf = csrf\<lparr>param := ''constructor''\<rparr>"

definition ctor_req :: request where
  "ctor_req =
     test_req\<lparr>body := Some [''_csrf'' \<mapsto> JStr ''validToken''],
              session := Some [''constructor'' \<mapsto> JStr ''validToken'']\<rparr>"

text \<open>
  An \<open>errorResponse\<close> hook that calls the continuation it is handed,
  \<open>(req, res, next) => next()\<close>, and a configuration that installs it.
\<close>

definition next_hook :: "request \<Rightarrow> response \<Rightarrow> error + response \<times> bool" where
  "next_hook req res = Inr (res, True)"

definition hook_config :: CsrfConfig where
  "hook_config =
     \<lparr>cfg_tokenLength = None,
      cfg_storage = Some \<lparr>storage_type = SESSION, storage_options = Some []\<rparr>,
      cfg_param = None, cfg_value = None, cfg_errorResponse = Some next_hook,
      cfg_protectCondition = None, cfg_getTransmitToken = None\<rparr>"

section \<open>Basic facts\<close>

lemma storage_kinds_differ [simp]: "SESSION \<noteq> COOKIE" "COOKIE \<noteq> SESSION"
  by (simp_all add: SESSION_def COOKIE_def)

subsection \<open>Reading and writing properties\<close>

lemma inherited_plain [simp]:
  "inherited ''_csrf'' = JUndefined"
  "inherited ''csrf-token'' = JUndefined"
  "inherited ''token'' = JUndefined"
  by (simp_all add: inherited_def object_prototype_def)

lemma inherited_not_string [simp]: "inherited k \<noteq> JStr t" "JStr t \<noteq> inherited k"
  by (simp_all add: inherited_def)

lemma inherited_proto [simp]: "truthy (inherited ''__proto__'')"
  by (simp add: inherited_def object_prototype_def)

lemma get_prop_own: "ob k = Some v \<Longrightarrow> get_prop ob k = v"
  by (simp add: get_prop_def)

lemma get_prop_inherited: "ob k = None \<Longrightarrow> get_prop ob k = inherited k"
  by (simp add: get_prop_def)

lemma get_prop_deleted [simp]: "get_prop (ob(k := None)) k = inherited k"
  by (simp add: get_prop_def)

text \<open>
  Where the middleware writes, the read before it was falsy, so the name is not the
  inherited \<open>__proto__\<close> and the write makes an own property.
\<close>

lemma set_prop_falsy: "\<not> truthy (get_prop ob k) \<Longrightarrow> set_prop ob k v = ob(k \<mapsto> v)"
  by (auto simp add: set_prop_def get_prop_def split: option.splits)

lemma get_prop_written:
  "\<not> truthy (get_prop ob k) \<Longrightarrow> get_prop (set_prop ob k v) k = v"
  by (simp add: set_prop_falsy get_prop_def)

subsection \<open>The configuration and the fixtures\<close>

lemma csrf_simps:
  "param csrf = ''_csrf''"
  "value_name csrf = ''csrfToken''"
  "storage csrf = \<lparr>storage_type = SESSION, storage_options = Some []\<rparr>"
  "tokenLength csrf = 16"
  "protectCondition csrf = protectCondition_default"
  "getTransmitToken csrf = getTransmitToken_default"
  "errorResponse csrf = errorResponse_default"
  by (simp_all add: csrf_def)

lemma e2e_csrf_simps:
  "param e2e_csrf = ''_csrf''"
  "storage_type (storage e2e_csrf) = COOKIE"
  "tokenLength e2e_csrf = 24"
  "protectCondition e2e_csrf = protectCondition_default"
  "getTransmitToken e2e_csrf = getTransmitToken_default"
  "errorResponse e2e_csrf = errorResponse_default"
  by (simp_all add: e2e_csrf_def generate_def spread_def e2e_config_def csrf_simps)

lemma test_req_simps:
  "req_method test_req = ''POST''"
  "body test_req = Some Map.empty"
  "headers test_req = Some Map.empty"
  "session test_req = Some Map.empty"
  "cookies test_req = Some Map.empty"
  "currentCsrfToken test_req = JUndefined"
  by (simp_all add: test_req_def)

text \<open>
  A key that is absent from the session or from the cookies reads as what the object
  inherits under that name: \<open>null\<close> for every name outside \<open>Object.prototype\<close>.
\<close>

lemma getToken_absent:
  "storage_type (storage g) = SESSION \<and> session req = Some s \<and> s (param g) = None \<or>
   storage_type (storage g) = COOKIE \<and> cookies req = Some s \<and> s (param g) = None
   \<Longrightarrow> getToken g req = Inr (js_or (inherited (param g)) JNull)"
  by (auto simp add: getToken_def get_prop_def)

lemma js_or_inherited:
  "js_or (inherited k) JNull = (if k \<in> set object_prototype then JObject k else JNull)"
  by (simp add: js_or_def inherited_def)

lemma rejects_after_clear:
  "truthy tok \<Longrightarrow> tok \<noteq> inherited k \<Longrightarrow> tok \<noteq> js_or (inherited k) JNull"
  by (auto simp add: js_or_def)

text \<open>An empty session read under the name \<open>constructor\<close> gives the inherited function.\<close>

lemma getToken_inherited_name:
  "getToken (csrf\<lparr>param := ''constructor''\<rparr>) test_req = Inr (JObject ''constructor'')"
  by (simp add: getToken_def csrf_simps test_req_simps get_prop_def js_or_def inherited_def
      object_prototype_def)

lemma getToken_session_cong:
  "storage_type (storage g) = SESSION \<Longrightarrow> session r2 = session r1 \<Longrightarrow>
   getToken g r2 = getToken g r1"
  by (simp add: getToken_def)

lemma setTokenLocalsParam_reads:
  "getToken g req = Inr t \<Longrightarrow>
   setTokenLocalsParam g req res =
     Inr (req, res\<lparr>locals := (locals res)(value_name g \<mapsto> js_or t (currentCsrfToken req))\<rparr>,
          [ReadToken, CallNext])"
  by (simp add: setTokenLocalsParam_def)

subsection \<open>The rejecting path\<close>

lemma rejected_request: "fst (rejected g req res tr) = req"
  by (simp add: rejected_def split: sum.splits prod.splits)

lemma rejected_default:
  "errorResponse g = errorResponse_default \<Longrightarrow>
   rejected g req res tr =
     (req, res\<lparr>statusCode := 403, sent := Some ''CSRF token invalid''\<rparr>, tr @ [Reject])"
  by (simp add: rejected_def errorResponse_default_def)

lemma rejected_next:
  "CallNext \<notin> set tr \<Longrightarrow>
   CallNext \<in> set (snd (snd (rejected g req res tr))) \<longleftrightarrow>
     (\<exists>res'. errorResponse g req res = Inr (res', True))"
  by (auto simp add: rejected_def split: sum.splits prod.splits)

lemma rejected_no_storage_events:
  "ClearToken \<notin> set tr \<Longrightarrow> \<forall>t. WriteToken t \<notin> set tr \<Longrightarrow>
   ClearToken \<notin> set (snd (snd (rejected g req res tr))) \<and>
   (\<forall>t. WriteToken t \<notin> set (snd (snd (rejected g req res tr))))"
  by (auto simp add: rejected_def split: sum.splits prod.splits)

lemma protect_rejects_gen:
  assumes "protectCondition g req = Inr True" "getTransmitToken g req = Inr tok"
    "\<not> truthy tok \<or> (getToken g req = Inr c \<and> tok \<noteq> c)"
  shows "protect g req res = rejected g req res (if truthy tok then [ReadToken] else [])"
  using assms by (auto simp add: protect_def)


subsection \<open>The accepting path\<close>

lemma protect_accepts:
  assumes "protectCondition g req = Inr True" "getTransmitToken g req = Inr tok"
    "truthy tok" "getToken g req = Inr tok"
  shows "\<exists>req' res'. clearToken g req res = Inr (req', res') \<and>
           protect g req res = (req', res', [ReadToken, ClearToken, CallNext])"
proof -
  have "storage_type (storage g) = SESSION \<or> storage_type (storage g) = COOKIE"
    using assms(3,4) by (auto simp add: getToken_def split: if_splits)
  moreover have "storage_type (storage g) = SESSION \<Longrightarrow> session req \<noteq> None"
    using assms(4) by (auto simp add: getToken_def split: if_splits option.splits)
  ultimately obtain req' res' where c: "clearToken g req res = Inr (req', res')"
    by (auto simp add: clearToken_def split: option.splits)
  then show ?thesis using assms by (simp add: protect_def)
qed

lemma clearToken_session:
  assumes "storage_type (storage g) = SESSION" "clearToken g req res = Inr (req', res')"
  shows "getToken g req' = Inr (js_or (inherited (param g)) JNull) \<and> res' = res"
  using assms
  by (auto simp add: clearToken_def getToken_def split: option.splits)

lemma clearToken_cookie:
  assumes "storage_type (storage g) = COOKIE" "clearToken g req res = Inr (req', res')"
  shows "req' = req \<and> cookie_ops res' = cookie_ops res @ [ClearCookie (param g)]"
  using assms
  by (auto simp add: clearToken_def split: option.splits)

subsection \<open>Merging a configuration\<close>

lemma spread_simps:
  "param (spread g c) = (case cfg_param c of None \<Rightarrow> param g | Some p \<Rightarrow> p)"
  "value_name (spread g c) = (case cfg_value c of None \<Rightarrow> value_name g | Some v \<Rightarrow> v)"
  "storage (spread g c) = (case cfg_storage c of None \<Rightarrow> storage g | Some s \<Rightarrow> s)"
  "tokenLength (spread g c) = (case cfg_tokenLength c of None \<Rightarrow> tokenLength g | Some n \<Rightarrow> n)"
  "protectCondition (spread g c) =
     (case cfg_protectCondition c of None \<Rightarrow> protectCondition g | Some f \<Rightarrow> f)"
  "getTransmitToken (spread g c) =
     (case cfg_getTransmitToken c of None \<Rightarrow> getTransmitToken g | Some f \<Rightarrow> f)"
  "errorResponse (spread g c) =
     (case cfg_errorResponse c of None \<Rightarrow> errorResponse g | Some f \<Rightarrow> f)"
  by (simp_all add: spread_def)


subsection \<open>Minting and the issuing path\<close>

lemma hex_length: "length (concat (map hex_byte bs)) = 2 * length bs"
  by (induction bs) (simp_all add: hex_byte_def)

lemma toString_hex_length: "toString_hex bs = Inr t \<Longrightarrow> length t = 2 * length bs"
  by (auto simp add: toString_hex_def hex_length split: if_splits)

lemma toString_hex_nonempty: "bs \<noteq> [] \<Longrightarrow> toString_hex bs = Inr t \<Longrightarrow> t \<noteq> []"
  by (auto dest: toString_hex_length)

lemma toString_hex_Nil: "toString_hex [] = Inr []"
  by (simp add: toString_hex_def)

lemma randomBytes_positive:
  "1 \<le> n \<Longrightarrow> randomBytes ent n = Inr bs \<Longrightarrow> bs \<noteq> []"
  by (auto simp add: randomBytes_def split: if_splits)

lemma issue_try_present:
  "getToken g req = Inr t \<Longrightarrow> truthy t \<Longrightarrow>
   issue_try g ent req res = (req, res, [ReadToken, CallNext])"
  by (simp add: issue_try_def)

lemma issue_try_stores:
  "session (fst (issue_try g ent req res)) = None \<longleftrightarrow> session req = None"
  "cookies (fst (issue_try g ent req res)) = cookies req"
  by (auto simp add: issue_try_def split: sum.splits option.splits)

text \<open>The three ways the \<open>try\<close> block ends when a token has to be minted.\<close>

lemma issue_try_mints:
  assumes "getToken g req = Inr c" "\<not> truthy c"
  shows "issue_try g ent req res =
     (case randomBytes ent (tokenLength g) of
        Inl e \<Rightarrow> (req, res, [ReadToken, CallNextErr e])
      | Inr bytes \<Rightarrow>
          (case toString_hex bytes of
             Inl e \<Rightarrow> (req, res, [ReadToken, CallNextErr e])
           | Inr token \<Rightarrow>
               if storage_type (storage g) = SESSION then
                 (req\<lparr>session := Some ((the (session req))(param g \<mapsto> JStr token)),
                      currentCsrfToken := JStr token\<rparr>,
                  res, [ReadToken, WriteToken token, CallNext])
               else if storage_type (storage g) = COOKIE then
                 (req\<lparr>currentCsrfToken := JStr token\<rparr>,
                  res\<lparr>cookie_ops := cookie_ops res @
                         [SetCookie (param g) token (storage_options (storage g))]\<rparr>,
                  [ReadToken, WriteToken token, CallNext])
               else (req\<lparr>currentCsrfToken := JStr token\<rparr>, res, [ReadToken, CallNext])))"
proof (cases "storage_type (storage g) = SESSION")
  case True
  with assms obtain s where s: "session req = Some s" "c = js_or (get_prop s (param g)) JNull"
    by (auto simp add: getToken_def split: option.splits)
  with assms(2) have "\<not> truthy (get_prop s (param g))"
    by (auto simp add: js_or_def split: if_splits)
  then have "set_prop s (param g) v = s(param g \<mapsto> v)" for v
    by (rule set_prop_falsy)
  with assms True s show ?thesis
    by (simp add: issue_try_def split: sum.splits)
next
  case False
  with assms show ?thesis
    by (simp add: issue_try_def split: sum.splits)
qed

lemma issue_try_too_long:
  assumes "getToken g req = Inr c" "\<not> truthy c"
    "268435444 < tokenLength g" "tokenLength g \<le> 2147483647"
  shows "issue_try g ent req res = (req, res, [ReadToken, CallNextErr StringTooLong])"
  using assms(3,4)
  by (simp add: issue_try_mints [OF assms(1,2)] randomBytes_def toString_hex_def)

lemma issue_try_session:
  assumes "storage_type (storage g) = SESSION" "1 \<le> tokenLength g"
    "issue_try g ent req res = (req1, res1, tr1)" "CallNext \<in> set tr1"
  shows "\<exists>t. getToken g req1 = Inr t \<and> truthy t"
proof -
  from assms(3,4) obtain c where c: "getToken g req = Inr c"
    by (cases "getToken g req") (auto simp add: issue_try_def)
  show ?thesis
  proof (cases "truthy c")
    case True
    with c assms(3) show ?thesis by (auto simp add: issue_try_present)
  next
    case False
    from c assms(1) obtain s where s: "session req = Some s"
      by (auto simp add: getToken_def split: option.splits)
    from issue_try_mints [OF c False, of ent res] assms s show ?thesis
      by (auto simp add: getToken_def get_prop_def js_or_def
          split: sum.splits dest: randomBytes_positive toString_hex_nonempty)
  qed
qed

lemma issue_try_cookie:
  assumes "storage_type (storage g) = COOKIE" "1 \<le> tokenLength g"
    "issue_try g ent req res = (req1, res1, tr1)" "WriteToken t \<in> set tr1"
  shows "t \<noteq> [] \<and>
    cookie_ops res1 = cookie_ops res @ [SetCookie (param g) t (storage_options (storage g))]"
proof -
  from assms(3,4) obtain c where c: "getToken g req = Inr c"
    by (cases "getToken g req") (auto simp add: issue_try_def)
  have f: "\<not> truthy c"
    using c assms(3,4) by (auto simp add: issue_try_present)
  from issue_try_mints [OF c f, of ent res] assms show ?thesis
    by (auto split: sum.splits dest: randomBytes_positive toString_hex_nonempty)
qed

lemma middleware_Inr:
  "middleware c g ent req res = Inr r \<Longrightarrow>
   r = issue_try g ent req res \<and>
   (\<exists>st. cfg_storage c = Some st \<and>
      (storage_type st = SESSION \<longrightarrow> session req \<noteq> None) \<and>
      (storage_type st = COOKIE \<longrightarrow> cookies req \<noteq> None))"
  by (auto simp add: middleware_def split: option.splits if_splits)

lemma middleware_pass:
  "cfg_storage c = Some st \<Longrightarrow>
   (storage_type st = SESSION \<longrightarrow> session req \<noteq> None) \<Longrightarrow>
   (storage_type st = COOKIE \<longrightarrow> cookies req \<noteq> None) \<Longrightarrow>
   middleware c g ent req res = Inr (issue_try g ent req res)"
  by (auto simp add: middleware_def)

lemma upt_24: "[0..<24] = [0,1,2,3,4,5,6,7,8,9,10,11,12,13,14,15,16,17,18,19,20,21,22,23::nat]"
  by (simp add: upt_rec)

lemma hex_0a:
  "toString_hex (map (\<lambda>_. 10) [0..<24]) = Inr ''0a0a0a0a0a0a0a0a0a0a0a0a0a0a0a0a0a0a0a0a0a0a0a0a''"
  by (simp add: toString_hex_def hex_byte_def hex_digit_def upt_24)

lemma hex_0b:
  "toString_hex (map (\<lambda>_. 11) [0..<24]) = Inr ''0b0b0b0b0b0b0b0b0b0b0b0b0b0b0b0b0b0b0b0b0b0b0b0b''"
  by (simp add: toString_hex_def hex_byte_def hex_digit_def upt_24)

lemma upt_16: "[0..<16] = [0,1,2,3,4,5,6,7,8,9,10,11,12,13,14,15::nat]"
  by (simp add: upt_rec)

lemma hex_0a_16:
  "toString_hex (map (\<lambda>_. 10) [0..<16]) = Inr ''0a0a0a0a0a0a0a0a0a0a0a0a0a0a0a0a''"
  by (simp add: toString_hex_def hex_byte_def hex_digit_def upt_16)

lemma session_issued_eq:
  "session_issued =
     (test_req\<lparr>session := Some [''_csrf'' \<mapsto> JStr ''0a0a0a0a0a0a0a0a0a0a0a0a0a0a0a0a''],
               currentCsrfToken := JStr ''0a0a0a0a0a0a0a0a0a0a0a0a0a0a0a0a''\<rparr>,
      test_res,
      [ReadToken, WriteToken ''0a0a0a0a0a0a0a0a0a0a0a0a0a0a0a0a'', CallNext])"
  by (simp add: session_issued_def issue_try_def csrf_simps getToken_def test_req_simps
      get_prop_def set_prop_def js_or_def randomBytes_def hex_0a_16)

lemma cookie_issued_eq:
  "cookie_issued =
     (test_req\<lparr>currentCsrfToken := JStr ''0a0a0a0a0a0a0a0a0a0a0a0a0a0a0a0a0a0a0a0a0a0a0a0a''\<rparr>,
      test_res\<lparr>cookie_ops :=
        [SetCookie ''_csrf'' ''0a0a0a0a0a0a0a0a0a0a0a0a0a0a0a0a0a0a0a0a0a0a0a0a''
           (storage_options (storage e2e_csrf))]\<rparr>,
      [ReadToken, WriteToken ''0a0a0a0a0a0a0a0a0a0a0a0a0a0a0a0a0a0a0a0a0a0a0a0a'', CallNext])"
  by (simp add: cookie_issued_def issue_try_def e2e_csrf_simps getToken_def test_req_simps
      get_prop_def js_or_def randomBytes_def hex_0a test_res_def)

lemma getTransmitToken_default_eq:
  "body req = Some b \<Longrightarrow> headers req = Some h \<Longrightarrow>
   getTransmitToken_default req = Inr (js_or (get_prop b ''_csrf'') (get_prop h ''csrf-token''))"
  by (simp add: getTransmitToken_default_def js_or_def)

section \<open>Policy bypass\<close>

text \<open>
  C3. When \<open>protectCondition\<close> returns false, \<open>protect\<close> calls neither
  \<open>getToken\<close> nor \<open>clearToken\<close>, leaves request and response as they are, and
  its only effect is the call \<open>next()\<close>.
\<close>

theorem protect_bypass:
  assumes "protectCondition g req = Inr False"
  shows "protect g req res = (req, res, [CallNext])"
  using assms by (simp add: protect_def)

text \<open>A \<open>GET\<close> with no token anywhere proceeds.\<close>

theorem protect_bypass_witness:
  "protect csrf (test_req\<lparr>req_method := ''GET''\<rparr>) test_res =
     (test_req\<lparr>req_method := ''GET''\<rparr>, test_res, [CallNext])"
proof -
  have "protectCondition csrf (test_req\<lparr>req_method := ''GET''\<rparr>) = Inr False"
    by (simp add: csrf_simps protectCondition_default_def)
  then show ?thesis by (rule protect_bypass)
qed

section \<open>Rejection\<close>

text \<open>
  C2, as amended. On a request that \<open>protectCondition\<close> selects, when the submitted
  token is falsy (absent, in particular) or differs from the canonical token that
  \<open>getToken\<close> returns, \<open>protect\<close> calls \<open>errorResponse\<close>, handing it \<open>next\<close>, and
  does nothing after it: \<open>protect\<close> itself never calls \<open>next()\<close>, which is in the
  trace exactly when the hook called it. With the default hook the response is status
  403 with the fixed message and \<open>next\<close> is not called.
\<close>

theorem protect_rejects:
  assumes "protectCondition g req = Inr True" "getTransmitToken g req = Inr tok"
    "\<not> truthy tok \<or> (getToken g req = Inr c \<and> tok \<noteq> c)"
  shows "protect g req res = rejected g req res (if truthy tok then [ReadToken] else []) \<and>
    (CallNext \<in> set (snd (snd (protect g req res))) \<longleftrightarrow>
       (\<exists>res'. errorResponse g req res = Inr (res', True))) \<and>
    (errorResponse g = errorResponse_default \<longrightarrow>
       protect g req res =
         (req, res\<lparr>statusCode := 403, sent := Some ''CSRF token invalid''\<rparr>,
          (if truthy tok then [ReadToken] else []) @ [Reject]))"
proof -
  let ?tr = "if truthy tok then [ReadToken] else []"
  have p: "protect g req res = rejected g req res ?tr"
    using assms by (rule protect_rejects_gen)
  have n: "CallNext \<notin> set ?tr" by simp
  show ?thesis
    using p rejected_next [OF n, of g req res] rejected_default [of g req res ?tr]
    by simp
qed

text \<open>The unit test: \<open>invalidToken\<close> submitted against \<open>validToken\<close> in the session.\<close>

theorem protect_rejects_witness:
  "protect csrf
     (test_req\<lparr>body := Some [''_csrf'' \<mapsto> JStr ''invalidToken''],
               session := Some [''_csrf'' \<mapsto> JStr ''validToken'']\<rparr>) test_res =
   (test_req\<lparr>body := Some [''_csrf'' \<mapsto> JStr ''invalidToken''],
             session := Some [''_csrf'' \<mapsto> JStr ''validToken'']\<rparr>,
    test_res\<lparr>statusCode := 403, sent := Some ''CSRF token invalid''\<rparr>,
    [ReadToken, Reject])"
proof -
  let ?req = "test_req\<lparr>body := Some [''_csrf'' \<mapsto> JStr ''invalidToken''],
               session := Some [''_csrf'' \<mapsto> JStr ''validToken'']\<rparr>"
  have c: "protectCondition csrf ?req = Inr True"
    by (simp add: csrf_simps protectCondition_default_def test_req_simps)
  have t: "getTransmitToken csrf ?req = Inr (JStr ''invalidToken'')"
    by (simp add: csrf_simps getTransmitToken_default_def get_prop_def)
  have f: "\<not> truthy (JStr ''invalidToken'') \<or>
      (getToken csrf ?req = Inr (JStr ''validToken'') \<and>
       JStr ''invalidToken'' \<noteq> JStr ''validToken'')"
    by (simp add: csrf_simps getToken_def get_prop_def js_or_def)
  from protect_rejects [OF c t f, of test_res]
  have "errorResponse csrf = errorResponse_default \<longrightarrow>
    protect csrf ?req test_res =
      (?req, test_res\<lparr>statusCode := 403, sent := Some ''CSRF token invalid''\<rparr>,
       (if truthy (JStr ''invalidToken'') then [ReadToken] else []) @ [Reject])"
    by blast
  then show ?thesis by (simp add: csrf_simps)
qed

text \<open>
  The hook receives \<open>next\<close>, so whether the continuation runs after a rejection is the
  hook's choice: with a hook that calls it, a \<open>POST\<close> without any token is rejected
  and the continuation is invoked all the same.
\<close>

theorem rejecting_hook_calls_next:
  "protect (fst (generate (Some hook_config) csrf)) test_req test_res =
     (test_req, test_res, [Reject, CallNext])"
  by (simp add: generate_def spread_def hook_config_def csrf_simps protect_def
      protectCondition_default_def getTransmitToken_default_def get_prop_def
      test_req_simps rejected_def next_hook_def)

text \<open>
  C5. On the rejecting path \<open>protect\<close> returns the request as it received it, so the
  canonical token reads as before, and its trace holds no clear and no write. With the
  default hook the response gains no cookie operation either.
\<close>

theorem reject_keeps_token:
  assumes "protectCondition g req = Inr True" "getTransmitToken g req = Inr tok"
    "\<not> truthy tok \<or> (getToken g req = Inr c \<and> tok \<noteq> c)"
  shows "fst (protect g req res) = req \<and>
    getToken g (fst (protect g req res)) = getToken g req \<and>
    ClearToken \<notin> set (snd (snd (protect g req res))) \<and>
    (\<forall>t. WriteToken t \<notin> set (snd (snd (protect g req res)))) \<and>
    (errorResponse g = errorResponse_default \<longrightarrow>
       cookie_ops (fst (snd (protect g req res))) = cookie_ops res)"
proof -
  let ?tr = "if truthy tok then [ReadToken] else []"
  have p: "protect g req res = rejected g req res ?tr"
    using assms by (rule protect_rejects_gen)
  have "ClearToken \<notin> set ?tr" "\<forall>t. WriteToken t \<notin> set ?tr" by simp_all
  from rejected_no_storage_events [OF this, of g req res]
  show ?thesis
    using p rejected_request [of g req res ?tr] rejected_default [of g req res ?tr]
    by simp
qed

text \<open>A \<open>POST\<close> without any token: the session keeps \<open>validToken\<close>.\<close>

theorem reject_keeps_token_witness:
  "getToken csrf
     (fst (protect csrf (test_req\<lparr>session := Some [''_csrf'' \<mapsto> JStr ''validToken'']\<rparr>)
        test_res)) = Inr (JStr ''validToken'') \<and>
   cookie_ops
     (fst (snd (protect csrf (test_req\<lparr>session := Some [''_csrf'' \<mapsto> JStr ''validToken'']\<rparr>)
        test_res))) = []"
proof -
  let ?req = "test_req\<lparr>session := Some [''_csrf'' \<mapsto> JStr ''validToken'']\<rparr>"
  have c: "protectCondition csrf ?req = Inr True"
    by (simp add: csrf_simps protectCondition_default_def test_req_simps)
  have t: "getTransmitToken csrf ?req = Inr JUndefined"
    by (simp add: csrf_simps getTransmitToken_default_def get_prop_def test_req_simps)
  have f: "\<not> truthy JUndefined \<or> (getToken csrf ?req = Inr JNull \<and> JUndefined \<noteq> JNull)"
    by simp
  have g: "getToken csrf ?req = Inr (JStr ''validToken'')"
    by (simp add: csrf_simps getToken_def get_prop_def js_or_def)
  from reject_keeps_token [OF c t f, of test_res]
  have "getToken csrf (fst (protect csrf ?req test_res)) = getToken csrf ?req"
    and "errorResponse csrf = errorResponse_default \<longrightarrow>
      cookie_ops (fst (snd (protect csrf ?req test_res))) = cookie_ops test_res"
    by blast+
  then show ?thesis using g by (simp add: csrf_simps test_res_def)
qed

section \<open>An empty scope\<close>



section \<open>Single use\<close>

text \<open>
  C1, as amended. On a request that \<open>protectCondition\<close> selects and whose submitted token
  is the canonical token, \<open>protect\<close> calls \<open>clearToken\<close> and then \<open>next()\<close>, in
  this order. With session storage the own property is then gone from the session: the
  canonical read gives what the session object inherits under the parameter name,
  \<open>null\<close> for every name outside \<open>Object.prototype\<close>, and a second request on that
  session that submits the same token is rejected. With cookie storage the clear is a
  clear-cookie operation on the response, and a second request is rejected when it no
  longer carries the cookie. In both cases the token must not be the inherited object
  itself, which no string is.
\<close>

theorem protect_single_use:
  assumes "protectCondition g req = Inr True" "getTransmitToken g req = Inr tok"
    "truthy tok" "getToken g req = Inr tok"
  shows "snd (snd (protect g req res)) = [ReadToken, ClearToken, CallNext] \<and>
    (storage_type (storage g) = SESSION \<longrightarrow>
       getToken g (fst (protect g req res)) =
         Inr (if param g \<in> set object_prototype then JObject (param g) else JNull) \<and>
       (\<forall>req2 res2.
          session req2 = session (fst (protect g req res)) \<and>
          protectCondition g req2 = Inr True \<and> getTransmitToken g req2 = Inr tok \<and>
          tok \<noteq> inherited (param g) \<longrightarrow>
          protect g req2 res2 = rejected g req2 res2 [ReadToken])) \<and>
    (storage_type (storage g) = COOKIE \<longrightarrow>
       cookie_ops (fst (snd (protect g req res))) = cookie_ops res @ [ClearCookie (param g)] \<and>
       (\<forall>req2 res2 jar.
          cookies req2 = Some jar \<and> jar (param g) = None \<and>
          protectCondition g req2 = Inr True \<and> getTransmitToken g req2 = Inr tok \<and>
          tok \<noteq> inherited (param g) \<longrightarrow>
          protect g req2 res2 = rejected g req2 res2 [ReadToken]))"
proof -
  let ?after = "js_or (inherited (param g)) JNull"
  from protect_accepts [OF assms, of res] obtain req' res' where
    c: "clearToken g req res = Inr (req', res')" and
    p: "protect g req res = (req', res', [ReadToken, ClearToken, CallNext])"
    by blast
  have rej: "protect g req2 res2 = rejected g req2 res2 [ReadToken]"
    if "protectCondition g req2 = Inr True" "getTransmitToken g req2 = Inr tok"
      "getToken g req2 = Inr ?after" "tok \<noteq> inherited (param g)" for req2 res2
  proof -
    have "tok \<noteq> ?after"
      using assms(3) that(4) by (rule rejects_after_clear)
    with that(3) have "\<not> truthy tok \<or> (getToken g req2 = Inr ?after \<and> tok \<noteq> ?after)"
      by simp
    from protect_rejects_gen [OF that(1,2) this, of res2] assms(3) show ?thesis
      by simp
  qed
  have s: "storage_type (storage g) = SESSION \<longrightarrow>
       getToken g req' = Inr ?after \<and>
       (\<forall>req2 res2.
          session req2 = session req' \<and> protectCondition g req2 = Inr True \<and>
          getTransmitToken g req2 = Inr tok \<and> tok \<noteq> inherited (param g) \<longrightarrow>
          protect g req2 res2 = rejected g req2 res2 [ReadToken])"
  proof (intro impI conjI allI)
    assume st: "storage_type (storage g) = SESSION"
    from clearToken_session [OF st c] show n: "getToken g req' = Inr ?after" by simp
    fix req2 res2
    assume h: "session req2 = session req' \<and> protectCondition g req2 = Inr True \<and>
          getTransmitToken g req2 = Inr tok \<and> tok \<noteq> inherited (param g)"
    then have "getToken g req2 = Inr ?after"
      using getToken_session_cong [OF st, of req2 req'] n by simp
    with h show "protect g req2 res2 = rejected g req2 res2 [ReadToken]"
      by (intro rej) simp_all
  qed
  have k: "storage_type (storage g) = COOKIE \<longrightarrow>
       cookie_ops res' = cookie_ops res @ [ClearCookie (param g)] \<and>
       (\<forall>req2 res2 jar.
          cookies req2 = Some jar \<and> jar (param g) = None \<and>
          protectCondition g req2 = Inr True \<and> getTransmitToken g req2 = Inr tok \<and>
          tok \<noteq> inherited (param g) \<longrightarrow>
          protect g req2 res2 = rejected g req2 res2 [ReadToken])"
  proof (intro impI conjI allI)
    assume st: "storage_type (storage g) = COOKIE"
    from clearToken_cookie [OF st c]
    show "cookie_ops res' = cookie_ops res @ [ClearCookie (param g)]" by simp
    fix req2 res2 jar
    assume h: "cookies req2 = Some jar \<and> jar (param g) = None \<and>
          protectCondition g req2 = Inr True \<and> getTransmitToken g req2 = Inr tok \<and>
          tok \<noteq> inherited (param g)"
    then have "getToken g req2 = Inr ?after"
      using getToken_absent [of g req2 jar] st by simp
    with h show "protect g req2 res2 = rejected g req2 res2 [ReadToken]"
      by (intro rej) simp_all
  qed
  from p s k show ?thesis by (simp add: js_or_inherited)
qed

text \<open>
  The valid token of the unit test, submitted twice on the same session; and the same
  under the parameter name \<open>constructor\<close>, where the read after the clear gives the
  inherited function and the second request is rejected as well.
\<close>

theorem protect_single_use_witness:
  "snd (snd (protect csrf valid_req test_res)) = [ReadToken, ClearToken, CallNext] \<and>
   snd (protect csrf (fst (protect csrf valid_req test_res)) test_res) =
     (test_res\<lparr>statusCode := 403, sent := Some ''CSRF token invalid''\<rparr>, [ReadToken, Reject]) \<and>
   getToken ctor_csrf (fst (protect ctor_csrf ctor_req test_res)) = Inr (JObject ''constructor'') \<and>
   snd (protect ctor_csrf (fst (protect ctor_csrf ctor_req test_res)) test_res) =
     (test_res\<lparr>statusCode := 403, sent := Some ''CSRF token invalid''\<rparr>, [ReadToken, Reject])"
proof -
  let ?tok = "JStr ''validToken''"
  have y: "truthy ?tok" by simp
  have c: "protectCondition csrf valid_req = Inr True"
    by (simp add: csrf_simps protectCondition_default_def test_req_simps valid_req_def)
  have t: "getTransmitToken csrf valid_req = Inr ?tok"
    by (simp add: csrf_simps getTransmitToken_default_def get_prop_def valid_req_def)
  have g: "getToken csrf valid_req = Inr ?tok"
    by (simp add: csrf_simps getToken_def get_prop_def js_or_def valid_req_def)
  let ?req' = "fst (protect csrf valid_req test_res)"
  have r: "?req' = valid_req\<lparr>session := Some Map.empty\<rparr>"
    by (simp add: protect_def valid_req_def csrf_simps protectCondition_default_def
        getTransmitToken_default_def get_prop_def getToken_def js_or_def clearToken_def
        test_req_simps)
  have c2: "protectCondition csrf ?req' = Inr True"
    unfolding r by (simp add: csrf_simps protectCondition_default_def test_req_simps valid_req_def)
  have t2: "getTransmitToken csrf ?req' = Inr ?tok"
    unfolding r by (simp add: csrf_simps getTransmitToken_default_def get_prop_def valid_req_def)
  have i: "?tok \<noteq> inherited (param csrf)" by simp
  from protect_single_use [OF c t y g, of test_res]
  have 1: "snd (snd (protect csrf valid_req test_res)) = [ReadToken, ClearToken, CallNext]"
    and 2: "protect csrf ?req' test_res = rejected csrf ?req' test_res [ReadToken]"
    using c2 t2 i by (simp_all add: csrf_simps)
  have k: "param ctor_csrf = ''constructor''" "storage_type (storage ctor_csrf) = SESSION"
    "protectCondition ctor_csrf = protectCondition_default"
    "getTransmitToken ctor_csrf = getTransmitToken_default"
    "errorResponse ctor_csrf = errorResponse_default"
    by (simp_all add: ctor_csrf_def csrf_simps)
  have m: "''constructor'' \<in> set object_prototype"
    by (simp add: object_prototype_def)
  have cc: "protectCondition ctor_csrf ctor_req = Inr True"
    by (simp add: k protectCondition_default_def test_req_simps ctor_req_def)
  have ct: "getTransmitToken ctor_csrf ctor_req = Inr ?tok"
    by (simp add: k getTransmitToken_default_def get_prop_def ctor_req_def)
  have cg: "getToken ctor_csrf ctor_req = Inr ?tok"
    by (simp add: k getToken_def get_prop_def js_or_def ctor_req_def)
  let ?creq' = "fst (protect ctor_csrf ctor_req test_res)"
  have cr: "?creq' = ctor_req\<lparr>session := Some Map.empty\<rparr>"
    by (simp add: protect_def ctor_req_def k protectCondition_default_def
        getTransmitToken_default_def get_prop_def getToken_def js_or_def clearToken_def
        test_req_simps)
  have cc2: "protectCondition ctor_csrf ?creq' = Inr True"
    unfolding cr by (simp add: k protectCondition_default_def test_req_simps ctor_req_def)
  have ct2: "getTransmitToken ctor_csrf ?creq' = Inr ?tok"
    unfolding cr by (simp add: k getTransmitToken_default_def get_prop_def ctor_req_def)
  have ci: "?tok \<noteq> inherited (param ctor_csrf)" by simp
  from protect_single_use [OF cc ct y cg, of test_res]
  have 3: "getToken ctor_csrf ?creq' = Inr (JObject ''constructor'')"
    and 4: "protect ctor_csrf ?creq' test_res = rejected ctor_csrf ?creq' test_res [ReadToken]"
    using cc2 ct2 ci m by (simp_all add: k)
  show ?thesis using 1 2 3 4 by (simp add: rejected_default csrf_simps k)
qed

text \<open>
  With cookie storage the canonical token is what the request carries, and \<open>clearToken\<close>
  only writes a clear-cookie operation to the response. A client that presents the valid
  request of the end-to-end test a second time, cookie included, is validated a second
  time: with cookie storage one token can be validated twice.
\<close>

theorem cookie_replay_validates_twice:
  "protect e2e_csrf e2e_req test_res =
     (e2e_req, test_res\<lparr>cookie_ops := [ClearCookie ''_csrf'']\<rparr>,
      [ReadToken, ClearToken, CallNext]) \<and>
   protect e2e_csrf (fst (protect e2e_csrf e2e_req test_res)) test_res =
     (e2e_req, test_res\<lparr>cookie_ops := [ClearCookie ''_csrf'']\<rparr>,
      [ReadToken, ClearToken, CallNext])"
proof -
  have "protect e2e_csrf e2e_req test_res =
     (e2e_req, test_res\<lparr>cookie_ops := [ClearCookie ''_csrf'']\<rparr>,
      [ReadToken, ClearToken, CallNext])"
    by (simp add: protect_def e2e_req_def e2e_csrf_simps
        protectCondition_default_def getTransmitToken_default_def get_prop_def getToken_def
        js_or_def clearToken_def test_req_simps test_res_def)
  then show ?thesis by simp
qed

section \<open>Issuing twice\<close>

text \<open>
  C4, as amended. Let the token length be at least 1 and let a first call of the
  middleware end with \<open>next()\<close>. With session storage, a second call on the request the
  first call left finds a token and writes nothing: request and response stay as they
  are. With cookie storage, a second call writes nothing when its request carries the
  cookie that the first call set on the response.
\<close>

theorem issue_twice:
  assumes "1 \<le> tokenLength g" "middleware c g e1 req res = Inr (req1, res1, tr1)"
    "CallNext \<in> set tr1"
  shows "(storage_type (storage g) = SESSION \<longrightarrow>
      (\<exists>t. getToken g req1 = Inr t \<and> truthy t) \<and>
      middleware c g e2 req1 res1 = Inr (req1, res1, [ReadToken, CallNext])) \<and>
    (storage_type (storage g) = COOKIE \<longrightarrow>
      (\<forall>t jar (req2::request) res2.
         WriteToken t \<in> set tr1 \<and> session req2 = session req1 \<and>
         cookies req2 = Some jar \<and> jar (param g) = Some (JStr t) \<longrightarrow>
         cookie_ops res1 =
           cookie_ops res @ [SetCookie (param g) t (storage_options (storage g))] \<and>
         getToken g req2 = Inr (JStr t) \<and>
         middleware c g e2 req2 res2 = Inr (req2, res2, [ReadToken, CallNext])))"
proof -
  from middleware_Inr [OF assms(2)] obtain st where
    i: "issue_try g e1 req res = (req1, res1, tr1)" and
    st: "cfg_storage c = Some st"
      "storage_type st = SESSION \<longrightarrow> session req \<noteq> None"
      "storage_type st = COOKIE \<longrightarrow> cookies req \<noteq> None"
    by auto
  have s1: "session req1 = None \<longleftrightarrow> session req = None" and c1: "cookies req1 = cookies req"
    using issue_try_stores [of g e1 req res] i by simp_all
  have a: "storage_type (storage g) = SESSION \<longrightarrow>
      (\<exists>t. getToken g req1 = Inr t \<and> truthy t) \<and>
      middleware c g e2 req1 res1 = Inr (req1, res1, [ReadToken, CallNext])"
  proof (intro impI)
    assume k: "storage_type (storage g) = SESSION"
    from issue_try_session [OF k assms(1) i assms(3)] obtain t where
      t: "getToken g req1 = Inr t" "truthy t" by blast
    have "middleware c g e2 req1 res1 = Inr (issue_try g e2 req1 res1)"
      using st s1 c1 by (intro middleware_pass [OF st(1)]) simp_all
    with t show "(\<exists>t. getToken g req1 = Inr t \<and> truthy t) \<and>
      middleware c g e2 req1 res1 = Inr (req1, res1, [ReadToken, CallNext])"
      by (auto simp add: issue_try_present)
  qed
  have b: "storage_type (storage g) = COOKIE \<longrightarrow>
      (\<forall>t jar (req2::request) res2.
         WriteToken t \<in> set tr1 \<and> session req2 = session req1 \<and>
         cookies req2 = Some jar \<and> jar (param g) = Some (JStr t) \<longrightarrow>
         cookie_ops res1 =
           cookie_ops res @ [SetCookie (param g) t (storage_options (storage g))] \<and>
         getToken g req2 = Inr (JStr t) \<and>
         middleware c g e2 req2 res2 = Inr (req2, res2, [ReadToken, CallNext]))"
  proof (intro impI allI)
    fix t jar and req2 :: request and res2
    assume k: "storage_type (storage g) = COOKIE"
      and h: "WriteToken t \<in> set tr1 \<and> session req2 = session req1 \<and>
         cookies req2 = Some jar \<and> jar (param g) = Some (JStr t)"
    from issue_try_cookie [OF k assms(1) i] h have
      n: "t \<noteq> []" and
      w: "cookie_ops res1 = cookie_ops res @ [SetCookie (param g) t (storage_options (storage g))]"
      by simp_all
    have g2: "getToken g req2 = Inr (JStr t)"
      using k h n by (simp add: getToken_def get_prop_def js_or_def)
    have "middleware c g e2 req2 res2 = Inr (issue_try g e2 req2 res2)"
      using st s1 h by (intro middleware_pass [OF st(1)]) simp_all
    with g2 n w show "cookie_ops res1 =
           cookie_ops res @ [SetCookie (param g) t (storage_options (storage g))] \<and>
         getToken g req2 = Inr (JStr t) \<and>
         middleware c g e2 req2 res2 = Inr (req2, res2, [ReadToken, CallNext])"
      by (simp add: issue_try_present)
  qed
  from a b show ?thesis by blast
qed

text \<open>
  The fixture, issued once and then again: on the same session, and on a next request
  that carries the cookie of the first response.
\<close>

theorem issue_twice_witness:
  "middleware (default_csrfConfig csrf) csrf (\<lambda>_. 11)
     (fst session_issued) (fst (snd session_issued)) =
     Inr (fst session_issued, fst (snd session_issued), [ReadToken, CallNext]) \<and>
   middleware e2e_config e2e_csrf (\<lambda>_. 11)
     (test_req
        \<lparr>cookies := Some [''_csrf'' \<mapsto> JStr ''0a0a0a0a0a0a0a0a0a0a0a0a0a0a0a0a0a0a0a0a0a0a0a0a'']\<rparr>)
     test_res =
     Inr (test_req
        \<lparr>cookies := Some [''_csrf'' \<mapsto> JStr ''0a0a0a0a0a0a0a0a0a0a0a0a0a0a0a0a0a0a0a0a0a0a0a0a'']\<rparr>,
          test_res, [ReadToken, CallNext])"
proof -
  let ?t = "''0a0a0a0a0a0a0a0a0a0a0a0a0a0a0a0a0a0a0a0a0a0a0a0a''"
  let ?req2 = "test_req\<lparr>cookies := Some [''_csrf'' \<mapsto> JStr ?t]\<rparr>"
  have s1: "middleware (default_csrfConfig csrf) csrf (\<lambda>_. 10) test_req test_res =
      Inr (fst session_issued, fst (snd session_issued), snd (snd session_issued))"
    by (simp add: middleware_def default_csrfConfig_def test_req_simps session_issued_def)
  have s2: "CallNext \<in> set (snd (snd session_issued))"
    by (simp add: session_issued_eq)
  have s3: "1 \<le> tokenLength csrf" by (simp add: csrf_simps)
  from issue_twice [OF s3 s1 s2, of "\<lambda>_. 11"]
  have a: "middleware (default_csrfConfig csrf) csrf (\<lambda>_. 11)
     (fst session_issued) (fst (snd session_issued)) =
     Inr (fst session_issued, fst (snd session_issued), [ReadToken, CallNext])"
    by (simp add: csrf_simps)
  have c1: "middleware e2e_config e2e_csrf (\<lambda>_. 10) test_req test_res =
      Inr (fst cookie_issued, fst (snd cookie_issued), snd (snd cookie_issued))"
    by (simp add: middleware_def e2e_config_def test_req_simps cookie_issued_def)
  have c2: "CallNext \<in> set (snd (snd cookie_issued))"
    by (simp add: cookie_issued_eq)
  have c3: "1 \<le> tokenLength e2e_csrf" by (simp add: e2e_csrf_simps)
  have c4: "WriteToken ?t \<in> set (snd (snd cookie_issued)) \<and>
      session ?req2 = session (fst cookie_issued) \<and>
      cookies ?req2 = Some [''_csrf'' \<mapsto> JStr ?t] \<and>
      [''_csrf'' \<mapsto> JStr ?t] (param e2e_csrf) = Some (JStr ?t)"
    by (simp add: cookie_issued_eq e2e_csrf_simps)
  note r = issue_twice [OF c3 c1 c2, of "\<lambda>_. 11", THEN conjunct2, rule_format,
      OF e2e_csrf_simps(2)]
  from r [OF c4]
  have b: "middleware e2e_config e2e_csrf (\<lambda>_. 11) ?req2 test_res =
     Inr (?req2, test_res, [ReadToken, CallNext])"
    by simp
  from a b show ?thesis by simp
qed

text \<open>
  With cookie storage the write goes to the response and the read comes from the
  request: on one and the same request the second call reads nothing, mints another
  token and writes a second cookie. With session storage and token length 0 the minted
  token is the empty string, which reads as absent: the second call writes again.
\<close>

theorem cookie_issue_twice_writes_twice:
  "middleware e2e_config e2e_csrf (\<lambda>_. 10) test_req test_res =
     Inr (test_req\<lparr>currentCsrfToken := JStr ''0a0a0a0a0a0a0a0a0a0a0a0a0a0a0a0a0a0a0a0a0a0a0a0a''\<rparr>,
          test_res\<lparr>cookie_ops :=
            [SetCookie ''_csrf'' ''0a0a0a0a0a0a0a0a0a0a0a0a0a0a0a0a0a0a0a0a0a0a0a0a''
               (storage_options (storage e2e_csrf))]\<rparr>,
          [ReadToken, WriteToken ''0a0a0a0a0a0a0a0a0a0a0a0a0a0a0a0a0a0a0a0a0a0a0a0a'', CallNext]) \<and>
   middleware e2e_config e2e_csrf (\<lambda>_. 11)
     (test_req\<lparr>currentCsrfToken := JStr ''0a0a0a0a0a0a0a0a0a0a0a0a0a0a0a0a0a0a0a0a0a0a0a0a''\<rparr>)
     (test_res\<lparr>cookie_ops :=
            [SetCookie ''_csrf'' ''0a0a0a0a0a0a0a0a0a0a0a0a0a0a0a0a0a0a0a0a0a0a0a0a''
               (storage_options (storage e2e_csrf))]\<rparr>) =
     Inr (test_req\<lparr>currentCsrfToken := JStr ''0b0b0b0b0b0b0b0b0b0b0b0b0b0b0b0b0b0b0b0b0b0b0b0b''\<rparr>,
          test_res\<lparr>cookie_ops :=
            [SetCookie ''_csrf'' ''0a0a0a0a0a0a0a0a0a0a0a0a0a0a0a0a0a0a0a0a0a0a0a0a''
               (storage_options (storage e2e_csrf)),
             SetCookie ''_csrf'' ''0b0b0b0b0b0b0b0b0b0b0b0b0b0b0b0b0b0b0b0b0b0b0b0b''
               (storage_options (storage e2e_csrf))]\<rparr>,
          [ReadToken, WriteToken ''0b0b0b0b0b0b0b0b0b0b0b0b0b0b0b0b0b0b0b0b0b0b0b0b'', CallNext]) \<and>
   middleware zero_config (fst (generate (Some zero_config) csrf)) (\<lambda>_. 11)
     (test_req\<lparr>session := Some [''_csrf'' \<mapsto> JStr []], currentCsrfToken := JStr []\<rparr>)
     test_res =
     Inr (test_req\<lparr>session := Some [''_csrf'' \<mapsto> JStr []], currentCsrfToken := JStr []\<rparr>,
          test_res,
          [ReadToken, WriteToken [], CallNext])"
proof -
  have "middleware zero_config (fst (generate (Some zero_config) csrf)) (\<lambda>_. 11)
     (test_req\<lparr>session := Some [''_csrf'' \<mapsto> JStr []], currentCsrfToken := JStr []\<rparr>)
     test_res =
     Inr (test_req\<lparr>session := Some [''_csrf'' \<mapsto> JStr []], currentCsrfToken := JStr []\<rparr>,
          test_res,
          [ReadToken, WriteToken [], CallNext])"
    by (simp add: middleware_def zero_config_def generate_def spread_def csrf_simps
        issue_try_def getToken_def test_req_simps get_prop_def set_prop_def js_or_def
        randomBytes_def toString_hex_def Let_def)
  then show ?thesis
    by (simp add: middleware_def e2e_config_def issue_try_def e2e_csrf_simps getToken_def
        test_req_simps get_prop_def js_or_def randomBytes_def hex_0a hex_0b test_res_def Let_def)
qed


section \<open>The configuration is shared\<close>

text \<open>
  C7, as amended. There is one configuration, the module variable: a call of
  \<open>generate\<close> overwrites in it every property its argument has. After a second call
  the variable holds the second argument's token length, storage, parameter name and
  hooks wherever it gives them, and the middleware returned by the first call runs its
  \<open>try\<close> block on that variable; of its own configuration it uses the storage kind
  of the two checks before the \<open>try\<close> only. \<open>protect\<close> and
  \<open>setTokenLocalsParam\<close> read the same variable.
\<close>

theorem shared_configuration:
  assumes "generate (Some cA) g0 = (g1, mwA)" "generate (Some cB) g1 = (g2, mwB)"
  shows "g2 = spread (spread g0 cA) cB \<and>
    (\<forall>p. cfg_param cB = Some p \<longrightarrow> param g2 = p) \<and>
    (\<forall>n. cfg_tokenLength cB = Some n \<longrightarrow> tokenLength g2 = n) \<and>
    (\<forall>s. cfg_storage cB = Some s \<longrightarrow> storage g2 = s) \<and>
    (\<forall>f. cfg_protectCondition cB = Some f \<longrightarrow> protectCondition g2 = f) \<and>
    (\<forall>f. cfg_getTransmitToken cB = Some f \<longrightarrow> getTransmitToken g2 = f) \<and>
    (\<forall>f. cfg_errorResponse cB = Some f \<longrightarrow> errorResponse g2 = f) \<and>
    (\<forall>ent req res r.
       middleware mwA g2 ent req res = Inr r \<longrightarrow> r = issue_try g2 ent req res)"
proof -
  have g: "g2 = spread (spread g0 cA) cB"
    using assms by (auto simp add: generate_def Let_def)
  have m: "\<forall>ent req res r.
       middleware mwA g2 ent req res = Inr r \<longrightarrow> r = issue_try g2 ent req res"
    using middleware_Inr by blast
  show ?thesis
    unfolding g using m [unfolded g] by (simp add: spread_simps)
qed

text \<open>A configuration that renames the parameter, then the one of the end-to-end test.\<close>

theorem shared_configuration_witness:
  "param (fst (generate (Some e2e_config) (fst (generate (Some param_config) csrf)))) = ''token'' \<and>
   storage_type (storage (fst (generate (Some e2e_config) (fst (generate (Some param_config) csrf)))))
     = COOKIE \<and>
   tokenLength (fst (generate (Some e2e_config) (fst (generate (Some param_config) csrf)))) = 24"
proof -
  let ?g1 = "fst (generate (Some param_config) csrf)"
  let ?g2 = "fst (generate (Some e2e_config) ?g1)"
  have 1: "generate (Some param_config) csrf = (?g1, snd (generate (Some param_config) csrf))"
    by simp
  have 2: "generate (Some e2e_config) ?g1 = (?g2, snd (generate (Some e2e_config) ?g1))"
    by simp
  from shared_configuration [OF 1 2]
  have "?g2 = spread (spread csrf param_config) e2e_config"
    and "\<forall>n. cfg_tokenLength e2e_config = Some n \<longrightarrow> tokenLength ?g2 = n"
    and "\<forall>s. cfg_storage e2e_config = Some s \<longrightarrow> storage ?g2 = s"
    by blast+
  then show ?thesis
    by (simp add: e2e_config_def spread_def param_config_def)
qed

text \<open>
  The middleware of \<open>generate()\<close> writes a 16-byte token to the session; once
  \<open>generate\<close> has been called with the configuration of the end-to-end test, the same
  middleware sets a 24-byte cookie with that configuration's options.
\<close>

theorem second_generate_changes_first_instance:
  "middleware (snd (generate None csrf)) (fst (generate None csrf)) (\<lambda>_. 10) test_req test_res =
     Inr (test_req\<lparr>session := Some [''_csrf'' \<mapsto> JStr ''0a0a0a0a0a0a0a0a0a0a0a0a0a0a0a0a''],
                   currentCsrfToken := JStr ''0a0a0a0a0a0a0a0a0a0a0a0a0a0a0a0a''\<rparr>,
          test_res,
          [ReadToken, WriteToken ''0a0a0a0a0a0a0a0a0a0a0a0a0a0a0a0a'', CallNext]) \<and>
   middleware (snd (generate None csrf))
     (fst (generate (Some e2e_config) (fst (generate None csrf)))) (\<lambda>_. 10) test_req test_res =
     Inr (test_req\<lparr>currentCsrfToken := JStr ''0a0a0a0a0a0a0a0a0a0a0a0a0a0a0a0a0a0a0a0a0a0a0a0a''\<rparr>,
          test_res\<lparr>cookie_ops :=
            [SetCookie ''_csrf'' ''0a0a0a0a0a0a0a0a0a0a0a0a0a0a0a0a0a0a0a0a0a0a0a0a''
               (Some [(''httpOnly'', JBool True), (''maxAge'', JNum 86400000),
                      (''secure'', JBool True)])]\<rparr>,
          [ReadToken, WriteToken ''0a0a0a0a0a0a0a0a0a0a0a0a0a0a0a0a0a0a0a0a0a0a0a0a'', CallNext])"
proof -
  have g1: "fst (generate None csrf) = csrf"
    by (simp add: generate_def spread_def default_csrfConfig_def csrf_def Let_def)
  have c: "snd (generate None csrf) = default_csrfConfig csrf"
    by (simp add: generate_def Let_def)
  have g2: "fst (generate (Some e2e_config) csrf) = e2e_csrf"
    by (simp add: e2e_csrf_def)
  have o: "storage_options (storage e2e_csrf) =
      Some [(''httpOnly'', JBool True), (''maxAge'', JNum 86400000), (''secure'', JBool True)]"
    by (simp add: e2e_csrf_def generate_def spread_def e2e_config_def)
  have a: "middleware (default_csrfConfig csrf) csrf (\<lambda>_. 10) test_req test_res = Inr session_issued"
    by (simp add: middleware_def default_csrfConfig_def test_req_simps session_issued_def)
  have b: "middleware (default_csrfConfig csrf) e2e_csrf (\<lambda>_. 10) test_req test_res = Inr cookie_issued"
    by (simp add: middleware_def default_csrfConfig_def test_req_simps cookie_issued_def)
  show ?thesis
    unfolding g1 c g2 a b by (simp add: session_issued_eq cookie_issued_eq o)
qed

section \<open>Token length\<close>

text \<open>
  C9, as amended. When a token has to be minted (the canonical read is falsy) and the
  token length is negative, the random source raises a range error, the middleware
  passes it to \<open>next(error)\<close> and neither request nor response changes. With token
  length 0 nothing is raised: the empty string is minted and \<open>next()\<close> is called.
\<close>

theorem mint_nonpositive_length:
  assumes "getToken g req = Inr t" "\<not> truthy t"
  shows "(tokenLength g < 0 \<longrightarrow>
       issue_try g ent req res = (req, res, [ReadToken, CallNextErr RangeError])) \<and>
    (tokenLength g = 0 \<longrightarrow>
       currentCsrfToken (fst (issue_try g ent req res)) = JStr [] \<and>
       last (snd (snd (issue_try g ent req res))) = CallNext \<and>
       (\<forall>e. CallNextErr e \<notin> set (snd (snd (issue_try g ent req res)))))"
  using assms
  by (auto simp add: issue_try_def randomBytes_def toString_hex_def getToken_def Let_def
      split: option.splits if_splits)

text \<open>Token length \<open>-1\<close> on the fixture.\<close>

theorem mint_nonpositive_length_witness:
  "issue_try (csrf\<lparr>tokenLength := - 1\<rparr>) (\<lambda>_. 10) test_req test_res =
     (test_req, test_res, [ReadToken, CallNextErr RangeError])"
proof -
  have a: "getToken (csrf\<lparr>tokenLength := - 1\<rparr>) test_req = Inr JNull"
    using getToken_absent [of "csrf\<lparr>tokenLength := - 1\<rparr>" test_req Map.empty]
    by (simp add: csrf_simps test_req_simps js_or_def)
  have b: "\<not> truthy JNull" by simp
  from mint_nonpositive_length [OF a b, of "\<lambda>_. 10" test_res]
  show ?thesis by simp
qed

text \<open>Token length 0 on the fixture: the empty token is stored and the request proceeds.\<close>

theorem zero_length_mints_empty_token:
  "middleware zero_config (fst (generate (Some zero_config) csrf)) (\<lambda>_. 10) test_req test_res =
     Inr (test_req\<lparr>session := Some [''_csrf'' \<mapsto> JStr []],
                   currentCsrfToken := JStr []\<rparr>,
          test_res,
          [ReadToken, WriteToken [], CallNext])"
  by (simp add: middleware_def zero_config_def generate_def spread_def csrf_simps issue_try_def
      getToken_def test_req_simps get_prop_def set_prop_def js_or_def randomBytes_def
      toString_hex_def Let_def)

section \<open>Token extraction\<close>

text \<open>
  C8. The default \<open>getTransmitToken\<close> reads the body field \<open>_csrf\<close> whatever
  \<open>csrf.param\<close> is. With the parameter renamed to \<open>token\<close>, a request that carries
  the canonical token in the body field \<open>token\<close> has no submitted token and is
  rejected, although the storage is read under the new name.
\<close>

theorem getTransmitToken_ignores_param:
  "param (fst (generate (Some param_config) csrf)) = ''token'' \<and>
   getToken (fst (generate (Some param_config) csrf))
     (test_req\<lparr>body := Some [''token'' \<mapsto> JStr ''abc''],
               session := Some [''token'' \<mapsto> JStr ''abc'']\<rparr>) = Inr (JStr ''abc'') \<and>
   getTransmitToken (fst (generate (Some param_config) csrf))
     (test_req\<lparr>body := Some [''token'' \<mapsto> JStr ''abc''],
               session := Some [''token'' \<mapsto> JStr ''abc'']\<rparr>) = Inr JUndefined \<and>
   protect (fst (generate (Some param_config) csrf))
     (test_req\<lparr>body := Some [''token'' \<mapsto> JStr ''abc''],
               session := Some [''token'' \<mapsto> JStr ''abc'']\<rparr>) test_res =
     (test_req\<lparr>body := Some [''token'' \<mapsto> JStr ''abc''],
               session := Some [''token'' \<mapsto> JStr ''abc'']\<rparr>,
      test_res\<lparr>statusCode := 403, sent := Some ''CSRF token invalid''\<rparr>,
      [Reject])"
  by (simp add: generate_def spread_def param_config_def csrf_simps getToken_def get_prop_def
      js_or_def getTransmitToken_default_def protect_def protectCondition_default_def
      test_req_simps rejected_def errorResponse_default_def)


end
